theory Spec2Isabelle
  imports Main "HOL-Library.Char_ord" "HOL-Library.List_Lexorder" "HOL-Library.AList"
begin

section \<open>Basic types\<close>

text \<open>
  Go's \<^verbatim>\<open>[]byte\<close> and \<^verbatim>\<open>string\<close> are both byte sequences; the conversions
  \<^verbatim>\<open>string(b)\<close> and \<^verbatim>\<open>[]byte(s)\<close> copy the bytes unchanged, so both are modelled by
  \<^typ>\<open>string\<close> (a list of 8-bit characters) and the conversions disappear.

  \<^verbatim>\<open>http.Header\<close> is \<^verbatim>\<open>map[string][]string\<close>. It is modelled as an association list
  whose keys are pairwise distinct; the order of the list is the order in which a
  \<^verbatim>\<open>range\<close> loop over the map visits the keys (Go leaves that order unspecified, so
  every order is a possible run). A nil slice and an empty slice are both the empty list.
\<close>

type_synonym bytes = string
type_synonym Header = "(string \<times> string list) list"

section \<open>The bounded trace history\<close>

text \<open>
  The Go struct \<^verbatim>\<open>Trace\<close>. The time stamp and the latency come from the clock and are
  only stored; they are natural numbers here.
\<close>

record Trace =
  Id :: string
  Timestamp :: nat
  Method :: string
  URL :: string
  Status :: string
  Latency :: nat
  SessionId :: string
  RequestHeader :: Header
  RequestBody :: string
  ResponseBody :: string

text \<open>\<^verbatim>\<open>var tracesMax = 100 // keep only the latest 100 traces\<close>\<close>

definition tracesMax :: nat where
  "tracesMax = 100"

text \<open>
  Both paths of the handler end with
  \<^verbatim>\<open>traces = append(traces, trace); if len(traces) > tracesMax { traces = traces[len(traces)-tracesMax:] }\<close>.
  The function is polymorphic in the element, as the Go statement does not look inside
  the trace.
\<close>

definition appendTrace :: "'a list \<Rightarrow> 'a \<Rightarrow> 'a list" where
  "appendTrace traces trace =
     (let traces1 = traces @ [trace]
      in if length traces1 > tracesMax
         then drop (length traces1 - tracesMax) traces1
         else traces1)"

text \<open>A sequence of insertions, one completed exchange after the other.\<close>

fun insertAll :: "'a list \<Rightarrow> 'a list \<Rightarrow> 'a list" where
  "insertAll traces [] = traces"
| "insertAll traces (t # ts) = insertAll (appendTrace traces t) ts"

section \<open>Strings and header maps of the Go library\<close>

text \<open>\<^verbatim>\<open>strings.HasPrefix\<close> and \<^verbatim>\<open>strings.Contains\<close>.\<close>

definition HasPrefix :: "string \<Rightarrow> string \<Rightarrow> bool" where
  "HasPrefix s pre = (take (length pre) s = pre)"

fun Contains :: "string \<Rightarrow> string \<Rightarrow> bool" where
  "Contains [] substr = (substr = [])"
| "Contains (c # s) substr = (HasPrefix (c # s) substr \<or> Contains s substr)"

text \<open>
  ASCII letters differ in bit 5 only: \<open>'A' = 0x41\<close>, \<open>'a' = 0x61\<close>.
  \<^verbatim>\<open>strings.ToLower\<close> is modelled on ASCII; bytes outside \<open>'A'..'Z'\<close> stay as they are
  (Go also lowers non-ASCII letters of a UTF-8 string, which header names do not contain).
\<close>

definition isUpperASCII :: "char \<Rightarrow> bool" where
  "isUpperASCII c = (CHR ''A'' \<le> c \<and> c \<le> CHR ''Z'')"

definition isLowerASCII :: "char \<Rightarrow> bool" where
  "isLowerASCII c = (CHR ''a'' \<le> c \<and> c \<le> CHR ''z'')"

definition isDigitASCII :: "char \<Rightarrow> bool" where
  "isDigitASCII c = (CHR ''0'' \<le> c \<and> c \<le> CHR ''9'')"

definition toLowerByte :: "char \<Rightarrow> char" where
  "toLowerByte c =
     (if isUpperASCII c
      then (case c of Char b0 b1 b2 b3 b4 b5 b6 b7 \<Rightarrow> Char b0 b1 b2 b3 b4 True b6 b7)
      else c)"

definition toUpperByte :: "char \<Rightarrow> char" where
  "toUpperByte c =
     (if isLowerASCII c
      then (case c of Char b0 b1 b2 b3 b4 b5 b6 b7 \<Rightarrow> Char b0 b1 b2 b3 b4 False b6 b7)
      else c)"

definition ToLower :: "string \<Rightarrow> string" where
  "ToLower s = map toLowerByte s"

text \<open>
  \<^verbatim>\<open>textproto.CanonicalMIMEHeaderKey\<close>: a key containing a byte that is not a header
  token byte (a space included) is returned unchanged; otherwise the first letter and
  every letter after a dash become upper case and all other letters lower case.
\<close>

definition validHeaderFieldByte :: "char \<Rightarrow> bool" where
  "validHeaderFieldByte c =
     (isLowerASCII c \<or> isUpperASCII c \<or> isDigitASCII c \<or>
      c \<in> set [CHR 0x21, CHR 0x23, CHR 0x24, CHR 0x25, CHR 0x26, CHR 0x27, CHR 0x2A,
                 CHR 0x2B, CHR 0x2D, CHR 0x2E, CHR 0x5E, CHR 0x5F, CHR 0x60, CHR 0x7C,
                 CHR 0x7E])"

fun canonLoop :: "bool \<Rightarrow> string \<Rightarrow> string" where
  "canonLoop upper [] = []"
| "canonLoop upper (c # cs) =
     (let c' = (if upper \<and> isLowerASCII c then toUpperByte c
                else if \<not> upper \<and> isUpperASCII c then toLowerByte c
                else c)
      in c' # canonLoop (c' = CHR 0x2D) cs)"

definition CanonicalMIMEHeaderKey :: "string \<Rightarrow> string" where
  "CanonicalMIMEHeaderKey s = (if list_all validHeaderFieldByte s then canonLoop True s else s)"

text \<open>
  The methods of \<^verbatim>\<open>http.Header\<close>. \<^verbatim>\<open>Add\<close>, \<^verbatim>\<open>Set\<close>, \<^verbatim>\<open>Get\<close> and \<^verbatim>\<open>Del\<close>
  canonicalise the key; the plain map assignment \<^verbatim>\<open>h[k] = vs\<close> (\<open>AList.update\<close>) and
  the plain map read do not.
\<close>

definition hValues :: "Header \<Rightarrow> string \<Rightarrow> string list" where
  "hValues h k = (case map_of h k of None \<Rightarrow> [] | Some vs \<Rightarrow> vs)"

definition hAdd :: "Header \<Rightarrow> string \<Rightarrow> string \<Rightarrow> Header" where
  "hAdd h key v =
     (let k = CanonicalMIMEHeaderKey key in AList.update k (hValues h k @ [v]) h)"

definition hSet :: "Header \<Rightarrow> string \<Rightarrow> string \<Rightarrow> Header" where
  "hSet h key v = AList.update (CanonicalMIMEHeaderKey key) [v] h"

definition hGet :: "Header \<Rightarrow> string \<Rightarrow> string" where
  "hGet h key = (case hValues h (CanonicalMIMEHeaderKey key) of [] \<Rightarrow> [] | v # _ \<Rightarrow> v)"

definition hDel :: "Header \<Rightarrow> string \<Rightarrow> Header" where
  "hDel h key = AList.delete (CanonicalMIMEHeaderKey key) h"

section \<open>Values of the Lua interpreter\<close>

text \<open>
  The values of gopher-lua that cross the boundary between the proxy and a script.
  A table is the list of its entries in the order in which \<^verbatim>\<open>ForEach\<close> visits them
  (array part first, in index order); its keys are pairwise distinct. A function value
  is named by a number; what it computes is decided by the interpreter. The payload of a
  number is never inspected by the proxy.
\<close>

datatype LValue =
    LNil
  | LBool bool
  | LNumber int
  | LString string
  | LTable "(LValue \<times> LValue) list"
  | LFunction nat

type_synonym LTableEntries = "(LValue \<times> LValue) list"

text \<open>The global environment of an interpreter state: \<^verbatim>\<open>L.GetGlobal(name)\<close>.\<close>

type_synonym LState = "string \<Rightarrow> LValue"

section \<open>JSON values of encoding/json\<close>

text \<open>
  What \<^verbatim>\<open>json.Unmarshal\<close> stores in an \<^verbatim>\<open>interface{}\<close>: nil, bool, float64 (here:
  integral numbers only), string, \<^verbatim>\<open>[]interface{}\<close> and \<^verbatim>\<open>map[string]interface{}\<close>
  (an association list with distinct keys).
\<close>

datatype json =
    JNull
  | JBool bool
  | JNumber int
  | JString string
  | JArray "json list"
  | JObject "(string \<times> json) list"

section \<open>The environment: libraries and the outside world\<close>

record upstream_request =
  qMethod :: string
  qURL :: string
  qHeader :: Header
  qBody :: bytes

text \<open>
  An upstream response: \<open>respBody\<close> are the bytes its body delivers, \<open>respErr\<close> the
  error, if any, with which reading the body ends after these bytes.
\<close>

record upstream_response =
  respStatus :: string
  respStatusCode :: nat
  respHeader :: Header
  respBody :: bytes
  respErr :: "string option"

text \<open>
  Everything the program calls but does not define is a field of the environment:
  the file system, the Lua interpreter (running a chunk gives an error or the state with
  its globals; calling a function value in a state gives an error or the returned
  values), the rendering \<^verbatim>\<open>String()\<close> of a Lua value that is not a string,
  \<^verbatim>\<open>encoding/json\<close>, the gzip and brotli readers, \<^verbatim>\<open>http.NewRequest\<close>, the upstream
  server behind \<^verbatim>\<open>client.Do\<close>, the random trace id and the clock.
  Errors are \<open>Inl\<close> with the message.
\<close>

record env =
  os_ReadFile :: "string \<Rightarrow> string + string"
  lua_DoString :: "string \<Rightarrow> string + LState"
  lua_Call :: "LState \<Rightarrow> LValue \<Rightarrow> LValue list \<Rightarrow> string + LValue list"
  lua_String :: "LValue \<Rightarrow> string"
  json_Unmarshal :: "bytes \<Rightarrow> string + (string \<times> json) list"
  json_Marshal :: "json \<Rightarrow> string + bytes"
  gzip_NewReader :: "bytes \<Rightarrow> string + bytes"
  gzip_ReadAll :: "bytes \<Rightarrow> string + bytes"
  brotli_ReadAll :: "bytes \<Rightarrow> string + bytes"
  http_NewRequest :: "string \<Rightarrow> string \<Rightarrow> string option"
  client_Do :: "upstream_request \<Rightarrow> string + upstream_response"
  generateTraceID :: string
  time_Now :: nat
  time_Since :: nat

section \<open>The Lua hook manager\<close>

record LuaHookManager =
  luaScript :: string
  enabled :: bool
  hasRequest :: bool
  hasResponse :: bool

text \<open>\<^verbatim>\<open>var luaHookManager = &LuaHookManager{enabled: false}\<close>\<close>

definition luaHookManager0 :: LuaHookManager where
  "luaHookManager0 = \<lparr>luaScript = [], enabled = False, hasRequest = False, hasResponse = False\<rparr>"

definition isLTFunction :: "LValue \<Rightarrow> bool" where
  "isLTFunction v = (case v of LFunction _ \<Rightarrow> True | _ \<Rightarrow> False)"

text \<open>
  \<^verbatim>\<open>LoadHookScript\<close> returns the manager after the call and the error (\<open>None\<close> is
  \<^verbatim>\<open>nil\<close>). The throwaway state \<open>L\<close> is created, used and closed inside the call.
\<close>

definition LoadHookScript :: "env \<Rightarrow> LuaHookManager \<Rightarrow> string \<Rightarrow> LuaHookManager \<times> string option" where
  "LoadHookScript E lhm scriptPath =
     (case os_ReadFile E scriptPath of
        Inl err \<Rightarrow>
          (lhm, Some (''failed to read Lua script file '' @ scriptPath @ '': '' @ err))
      | Inr script \<Rightarrow>
          (case lua_DoString E script of
             Inl err \<Rightarrow> (lhm, Some (''failed to load Lua script: '' @ err))
           | Inr L \<Rightarrow>
               (let hasRequest' = isLTFunction (L ''processRequest'');
                    hasResponse' = isLTFunction (L ''processResponse'')
                in if \<not> hasRequest' \<and> \<not> hasResponse'
                   then (lhm, Some ''Lua script must define at least one of 'processRequest' or 'processResponse' functions'')
                   else (lhm\<lparr>luaScript := script, hasRequest := hasRequest',
                              hasResponse := hasResponse', enabled := True\<rparr>, None))))"

section \<open>Headers as Lua tables\<close>

text \<open>
  \<^verbatim>\<open>RawSetInt\<close> and \<^verbatim>\<open>RawSetString\<close> store a value under a key of a table (the
  values stored here are never nil, so no entry is removed).
\<close>

definition RawSetInt :: "LTableEntries \<Rightarrow> int \<Rightarrow> LValue \<Rightarrow> LTableEntries" where
  "RawSetInt tb i v = AList.update (LNumber i) v tb"

definition RawSetString :: "LTableEntries \<Rightarrow> string \<Rightarrow> LValue \<Rightarrow> LTableEntries" where
  "RawSetString tb k v = AList.update (LString k) v tb"

text \<open>The inner loop of \<^verbatim>\<open>httpHeaderToLuaTable\<close>: the values under the keys \<open>1, 2, ...\<close>.\<close>

definition valueTableOf :: "string list \<Rightarrow> LTableEntries" where
  "valueTableOf values =
     fold (\<lambda>(i, v) valueTable. RawSetInt valueTable (int i + 1) (LString v))
          (enumerate 0 values) []"

definition httpHeaderToLuaTable :: "Header \<Rightarrow> LTableEntries" where
  "httpHeaderToLuaTable headers =
     fold (\<lambda>(name, values) table. RawSetString table (ToLower name) (LTable (valueTableOf values)))
          headers []"

text \<open>\<^verbatim>\<open>v.String()\<close>: a Lua string is its bytes; every other value is rendered by the library.\<close>

definition LValue_String :: "env \<Rightarrow> LValue \<Rightarrow> string" where
  "LValue_String E v = (case v of LString s \<Rightarrow> s | _ \<Rightarrow> lua_String E v)"

definition luaTableToHttpHeader :: "env \<Rightarrow> LTableEntries \<Rightarrow> Header" where
  "luaTableToHttpHeader E table =
     fold (\<lambda>(key, v) headers.
             (case v of
                LTable valueTable \<Rightarrow>
                  AList.update (LValue_String E key)
                               (map (\<lambda>(_, x). LValue_String E x) valueTable) headers
              | _ \<Rightarrow> headers))
          table []"

section \<open>Running the hooks\<close>

text \<open>
  \<^verbatim>\<open>L.PCall(nargs, nret, nil)\<close>: calling a value that is not a function is an error
  caught by the protected call, an error raised by the function is returned, and the
  returned values are adjusted to exactly \<open>nret\<close> values (missing ones are nil, extra
  ones are dropped). Metatables are not modelled.
\<close>

definition PCall :: "env \<Rightarrow> LState \<Rightarrow> LValue \<Rightarrow> LValue list \<Rightarrow> nat \<Rightarrow> string + LValue list" where
  "PCall E L f args nret =
     (if isLTFunction f
      then (case lua_Call E L f args of
              Inl err \<Rightarrow> Inl err
            | Inr rets \<Rightarrow> Inr (take nret (rets @ replicate nret LNil)))
      else Inl ''attempt to call a non-function object'')"

text \<open>
  The common body of \<^verbatim>\<open>ExecuteRequestHook\<close> and \<^verbatim>\<open>ExecuteResponseHook\<close> after their
  guard; the two Go functions differ in the guard and in the name of the global only.
  The result is the triple (body, headers, error) of the Go function.
\<close>

definition executeHook :: "env \<Rightarrow> string \<Rightarrow> string \<Rightarrow> bytes \<Rightarrow> Header \<Rightarrow> bytes \<times> Header \<times> string option" where
  "executeHook E script fname body headers =
     (case lua_DoString E script of
        Inl err \<Rightarrow> (body, headers, None)
      | Inr L \<Rightarrow>
          (case PCall E L (L fname) [LString body, LTable (httpHeaderToLuaTable headers)] 2 of
             Inl err \<Rightarrow> (body, headers, None)
           | Inr rets \<Rightarrow>
               (case rets of
                  [modifiedBody, modifiedHeaders] \<Rightarrow>
                    (let resultBody = (case modifiedBody of LString s \<Rightarrow> s | _ \<Rightarrow> body);
                         resultHeaders = (case modifiedHeaders of
                                            LTable t \<Rightarrow> luaTableToHttpHeader E t
                                          | _ \<Rightarrow> headers)
                     in (resultBody, resultHeaders, None))
                | _ \<Rightarrow> (body, headers, None))))"

definition ExecuteRequestHook :: "env \<Rightarrow> LuaHookManager \<Rightarrow> bytes \<Rightarrow> Header \<Rightarrow> bytes \<times> Header \<times> string option" where
  "ExecuteRequestHook E lhm body headers =
     (if \<not> enabled lhm \<or> \<not> hasRequest lhm \<or> luaScript lhm = []
      then (body, headers, None)
      else executeHook E (luaScript lhm) ''processRequest'' body headers)"

definition ExecuteResponseHook :: "env \<Rightarrow> LuaHookManager \<Rightarrow> bytes \<Rightarrow> Header \<Rightarrow> bytes \<times> Header \<times> string option" where
  "ExecuteResponseHook E lhm body headers =
     (if \<not> enabled lhm \<or> \<not> hasResponse lhm \<or> luaScript lhm = []
      then (body, headers, None)
      else executeHook E (luaScript lhm) ''processResponse'' body headers)"

text \<open>
  The condition of the claim about failing hooks, in the words of the specification: the
  script raises an error (when its chunk is run, or when the entry point is called with
  the body and the header table), or the state does not define the entry point.
\<close>

definition hookFails :: "env \<Rightarrow> string \<Rightarrow> string \<Rightarrow> bytes \<Rightarrow> Header \<Rightarrow> bool" where
  "hookFails E script fname body headers =
     (case lua_DoString E script of
        Inl err \<Rightarrow> True
      | Inr L \<Rightarrow>
          \<not> isLTFunction (L fname) \<or>
          isl (lua_Call E L (L fname) [LString body, LTable (httpHeaderToLuaTable headers)]))"

section \<open>The built-in prompt hook\<close>

text \<open>
  \<^verbatim>\<open>messagesHook\<close> builds a log line from the messages (one \<open>role: content\<close> line per
  message with string fields, the middle cut out beyond 2000 bytes) and returns the
  messages as they are, with a nil error.
\<close>

definition messageLine :: "(string \<times> json) list \<Rightarrow> string" where
  "messageLine message =
     (case (map_of message ''content'', map_of message ''role'') of
        (Some (JString content), Some (JString role)) \<Rightarrow> role @ '': '' @ content @ [CHR 0x0A]
      | _ \<Rightarrow> [])"

definition trimLog :: "string \<Rightarrow> string" where
  "trimLog s =
     (if length s > 2000
      then take 1000 s @ [CHR 0x0A] @ ''......'' @ [CHR 0x0A] @ drop (length s - 1000) s
      else s)"

definition messagesLog :: "(string \<times> json) list list \<Rightarrow> string" where
  "messagesLog messages = trimLog (concat (map messageLine messages))"

definition messagesHook :: "(string \<times> json) list list \<Rightarrow> (string \<times> json) list list \<times> string option" where
  "messagesHook messages = (messages, None)"

text \<open>
  The conversion loop of \<^verbatim>\<open>promptHook\<close>: every element of the array has to be an
  object, otherwise the hook returns early (\<open>None\<close>).
\<close>

fun toMessagesArray :: "json list \<Rightarrow> (string \<times> json) list list option" where
  "toMessagesArray [] = Some []"
| "toMessagesArray (msg # msgs) =
     (case msg of
        JObject msgMap \<Rightarrow> map_option ((#) msgMap) (toMessagesArray msgs)
      | _ \<Rightarrow> None)"

text \<open>
  \<^verbatim>\<open>promptHook\<close>. Note the two early returns that skip the Lua hook: a body that is
  not a JSON object, and a \<open>messages\<close> array with an element that is not an object.
\<close>

definition promptHook :: "env \<Rightarrow> LuaHookManager \<Rightarrow> bytes \<Rightarrow> Header \<Rightarrow> bytes \<times> Header \<times> string option" where
  "promptHook E lhm body headers =
     (case json_Unmarshal E body of
        Inl err \<Rightarrow> (body, headers, None)
      | Inr requestBody \<Rightarrow>
          (case map_of requestBody ''messages'' of
             Some (JArray messages) \<Rightarrow>
               (case toMessagesArray messages of
                  None \<Rightarrow> (body, headers, None)
                | Some messagesArray \<Rightarrow>
                    (case messagesHook messagesArray of
                       (modifiedMessages, Some err) \<Rightarrow> (body, headers, Some err)
                     | (modifiedMessages, None) \<Rightarrow>
                         (case json_Marshal E
                                 (JObject (AList.update ''messages''
                                             (JArray (map JObject modifiedMessages)) requestBody)) of
                            Inl err \<Rightarrow> (body, headers, Some err)
                          | Inr modifiedBody \<Rightarrow> ExecuteRequestHook E lhm modifiedBody headers)))
           | _ \<Rightarrow> ExecuteRequestHook E lhm body headers))"

text \<open>
  The default hooks
  \<^verbatim>\<open>func(body []byte, headers http.Header) (...) { return body, headers, nil }\<close>.
\<close>

definition defaultHook :: "bytes \<Rightarrow> Header \<Rightarrow> bytes \<times> Header \<times> string option" where
  "defaultHook body headers = (body, headers, None)"

section \<open>The content codec\<close>

definition decompressBody :: "env \<Rightarrow> bytes \<Rightarrow> string \<Rightarrow> bytes \<times> string option" where
  "decompressBody E body encoding =
     (if encoding = ''gzip'' then
        (case gzip_NewReader E body of
           Inl err \<Rightarrow> (body, Some err)
         | Inr reader \<Rightarrow>
             (case gzip_ReadAll E reader of
                Inl err \<Rightarrow> (body, Some err)
              | Inr decompressed \<Rightarrow> (decompressed, None)))
      else if encoding = ''br'' then
        (case brotli_ReadAll E body of
           Inl err \<Rightarrow> (body, Some err)
         | Inr decompressed \<Rightarrow> (decompressed, None))
      else (body, None))"

section \<open>The response writer of net/http\<close>

text \<open>
  \<^verbatim>\<open>http.ResponseWriter\<close>: \<open>wHeader\<close> is the map returned by \<^verbatim>\<open>w.Header()\<close>;
  \<open>wCommitted\<close> is the status line and the headers as they go to the wire, fixed by the
  first \<^verbatim>\<open>WriteHeader\<close> (the documented contract: "changing the header map after a
  call to WriteHeader (or Write) has no effect"; the server keeps a copy of the map
  that \<^verbatim>\<open>Header()\<close> has handed out, and a second \<^verbatim>\<open>WriteHeader\<close> is ignored);
  \<open>wBody\<close> are the body bytes written. Status codes of the 1xx class (which an upstream
  response never has), trailers, and the headers that the server adds by itself (Date,
  Content-Length, a sniffed Content-Type) are not modelled.
\<close>

record ResponseWriter =
  wHeader :: Header
  wCommitted :: "(nat \<times> Header) option"
  wBody :: bytes

definition newResponseWriter :: ResponseWriter where
  "newResponseWriter = \<lparr>wHeader = [], wCommitted = None, wBody = []\<rparr>"

definition WriteHeader :: "ResponseWriter \<Rightarrow> nat \<Rightarrow> ResponseWriter" where
  "WriteHeader w code =
     (case wCommitted w of
        None \<Rightarrow> w\<lparr>wCommitted := Some (code, wHeader w)\<rparr>
      | Some c \<Rightarrow> w)"

definition Write :: "ResponseWriter \<Rightarrow> bytes \<Rightarrow> ResponseWriter" where
  "Write w b =
     (let w1 = (case wCommitted w of None \<Rightarrow> WriteHeader w 200 | Some c \<Rightarrow> w)
      in w1\<lparr>wBody := wBody w1 @ b\<rparr>)"

text \<open>
  \<^verbatim>\<open>http.Error\<close>: deletes Content-Length (recent Go versions do), sets Content-Type
  and X-Content-Type-Options, writes the status and the message followed by a newline.
  Where the handler calls it before the upstream response the header map is empty, and
  afterwards the headers are committed already, so the deletion never shows.
\<close>

definition http_Error :: "ResponseWriter \<Rightarrow> string \<Rightarrow> nat \<Rightarrow> ResponseWriter" where
  "http_Error w msg code =
     (let h1 = hDel (wHeader w) ''Content-Length'';
          h2 = hSet h1 ''Content-Type'' ''text/plain; charset=utf-8'';
          h3 = hSet h2 ''X-Content-Type-Options'' ''nosniff''
      in Write (WriteHeader (w\<lparr>wHeader := h3\<rparr>) code) (msg @ [CHR 0x0A]))"

section \<open>The forwarding handler\<close>

text \<open>
  A request as the handler reads it: \<open>rBody\<close> is the result of \<^verbatim>\<open>io.ReadAll(r.Body)\<close>
  (for a server request \<^verbatim>\<open>r.Body\<close> is never nil).
\<close>

record request =
  rMethod :: string
  rPath :: string
  rRawQuery :: string
  rHeader :: Header
  rBody :: "string + bytes"

text \<open>
  What one run of the handler leaves behind: the response writer (so what the client
  sees), the request handed to \<^verbatim>\<open>client.Do\<close> if that point was reached, the trace
  history after the run, and the trace sent to the hub if one was recorded.
\<close>

record outcome =
  written :: ResponseWriter
  forwarded :: "upstream_request option"
  history :: "Trace list"
  broadcast :: "Trace option"

text \<open>The decimal digits of \<^verbatim>\<open>%d\<close>.\<close>

function showNat :: "nat \<Rightarrow> string" where
  "showNat n = (if n < 10 then [char_of (48 + n)] else showNat (n div 10) @ [char_of (48 + n mod 10)])"
  by pat_completeness auto
termination
  by (relation "measure id") auto

declare showNat.simps [simp del]

definition showInt :: "int \<Rightarrow> string" where
  "showInt i = (if i < 0 then CHR ''-'' # showNat (nat (- i)) else showNat (nat i))"

text \<open>
  \<^verbatim>\<open>targetURL.String()\<close> for scheme https and host api.openai.com (the escaping of
  unusual bytes in the path is not modelled).
\<close>

definition targetURL :: "request \<Rightarrow> string" where
  "targetURL r =
     ''https://api.openai.com'' @ rPath r @ (if rRawQuery r = [] then [] else ''?'' @ rRawQuery r)"

text \<open>
  The header copy loop onto the new request (whose header map starts empty) and the
  Accept-Encoding default after it.
\<close>

definition copyRequestHeaders :: "Header \<Rightarrow> Header" where
  "copyRequestHeaders hdr =
     (let h = fold (\<lambda>(name, values) h.
                      fold (\<lambda>v h. if name = ''Accept-Encoding''
                                   then hSet h name ''identity''
                                   else hAdd h name v) values h)
                   hdr []
      in if hGet h ''Accept-Encoding'' = [] then hSet h ''Accept-Encoding'' ''identity'' else h)"

text \<open>\<^verbatim>\<open>for name, values := range resp.Header { ... w.Header().Add(name, value) }\<close>\<close>

definition copyResponseHeaders :: "Header \<Rightarrow> Header \<Rightarrow> Header" where
  "copyResponseHeaders hdr wh =
     fold (\<lambda>(name, values) h. fold (\<lambda>v h. hAdd h name v) values h) hdr wh"

text \<open>
  \<^verbatim>\<open>for name, values := range modifiedRespHeaders { w.Header().Del(name); ... Add(name, value) }\<close>
\<close>

definition updateHeaders :: "Header \<Rightarrow> Header \<Rightarrow> Header" where
  "updateHeaders hdr wh =
     fold (\<lambda>(name, values) h. fold (\<lambda>v h. hAdd h name v) values (hDel h name)) hdr wh"

definition isStreaming :: "upstream_response \<Rightarrow> bool" where
  "isStreaming resp =
     (let contentType = hGet (respHeader resp) ''Content-Type''
      in Contains contentType ''text/event-stream'' \<or> Contains contentType ''text/plain'')"

definition mkTrace :: "env \<Rightarrow> request \<Rightarrow> upstream_response \<Rightarrow> Header \<Rightarrow> bytes \<Rightarrow> string \<Rightarrow> Trace" where
  "mkTrace E r resp hdr bodyBytes responseBody =
     \<lparr>Id = generateTraceID E, Timestamp = time_Now E, Method = rMethod r, URL = targetURL r,
      Status = respStatus resp, Latency = time_Since E,
      SessionId = hGet (respHeader resp) ''X-Session-Id'',
      RequestHeader = hdr, RequestBody = bodyBytes, ResponseBody = responseBody\<rparr>"

text \<open>
  The streaming branch. \<^verbatim>\<open>io.Copy\<close> writes the bytes the body delivers; when it ends
  with an error the handler returns without a trace. Here \<open>hdr\<close> and \<open>bodyBytes\<close> are
  \<^verbatim>\<open>r.Header\<close> and \<^verbatim>\<open>bodyBytes\<close> after the request hook.
\<close>

definition streamingPath ::
  "env \<Rightarrow> request \<Rightarrow> Header \<Rightarrow> bytes \<Rightarrow> upstream_request \<Rightarrow> upstream_response \<Rightarrow> ResponseWriter
     \<Rightarrow> Trace list \<Rightarrow> outcome" where
  "streamingPath E r hdr bodyBytes req resp w traces =
     (let w1 = Write w (respBody resp);
          bytesWritten = length (respBody resp)
      in case respErr resp of
           Some err \<Rightarrow> \<lparr>written = w1, forwarded = Some req, history = traces, broadcast = None\<rparr>
         | None \<Rightarrow>
             (let trace = mkTrace E r resp hdr bodyBytes
                            (''[STREAMING RESPONSE - '' @ showNat bytesWritten @ '' bytes]'')
              in \<lparr>written = w1, forwarded = Some req, history = appendTrace traces trace,
                  broadcast = Some trace\<rparr>))"

text \<open>
  The buffered branch, in two steps. First the decompression: when the upstream response
  names a content encoding and \<^verbatim>\<open>decompressBody\<close> succeeds, the body is replaced and
  Content-Encoding is deleted from the header map of the writer.
\<close>

definition decompressStep :: "env \<Rightarrow> upstream_response \<Rightarrow> ResponseWriter \<Rightarrow> bytes \<times> ResponseWriter" where
  "decompressStep E resp w =
     (let contentEncoding = hGet (respHeader resp) ''Content-Encoding''
      in if contentEncoding \<noteq> [] then
           (case decompressBody E (respBody resp) contentEncoding of
              (decompressed, None) \<Rightarrow>
                (decompressed, w\<lparr>wHeader := hDel (wHeader w) ''Content-Encoding''\<rparr>)
            | (decompressed, Some err) \<Rightarrow> (respBody resp, w))
         else (respBody resp, w))"

text \<open>
  Then the two response hooks, the update of the headers from the hook result, the
  write of the body and the trace. A hook error ends the run without body and trace.
\<close>

definition bufferedPath ::
  "env \<Rightarrow> LuaHookManager \<Rightarrow> (bytes \<Rightarrow> Header \<Rightarrow> bytes \<times> Header \<times> string option)
     \<Rightarrow> request \<Rightarrow> Header \<Rightarrow> bytes \<Rightarrow> upstream_request \<Rightarrow> upstream_response \<Rightarrow> ResponseWriter
     \<Rightarrow> Trace list \<Rightarrow> outcome" where
  "bufferedPath E lhm responseHook r hdr bodyBytes req resp w traces =
     (case respErr resp of
        Some err \<Rightarrow>
          \<lparr>written = http_Error w ''Failed to read response'' 500, forwarded = Some req,
           history = traces, broadcast = None\<rparr>
      | None \<Rightarrow>
          (case decompressStep E resp w of
             (respBody1, w1) \<Rightarrow>
               (case responseHook respBody1 (respHeader resp) of
                  (modifiedRespBody, modifiedRespHeaders, Some err) \<Rightarrow>
                    \<lparr>written = w1, forwarded = Some req, history = traces, broadcast = None\<rparr>
                | (respBody2, modifiedRespHeaders, None) \<Rightarrow>
                    (case ExecuteResponseHook E lhm respBody2 modifiedRespHeaders of
                       (modifiedRespBody, modifiedRespHeaders', Some err) \<Rightarrow>
                         \<lparr>written = w1, forwarded = Some req, history = traces, broadcast = None\<rparr>
                     | (respBody3, modifiedRespHeaders', None) \<Rightarrow>
                         (let w2 = w1\<lparr>wHeader := updateHeaders modifiedRespHeaders' (wHeader w1)\<rparr>;
                              w3 = Write w2 respBody3;
                              trace = mkTrace E r resp hdr bodyBytes respBody3
                          in \<lparr>written = w3, forwarded = Some req,
                              history = appendTrace traces trace, broadcast = Some trace\<rparr>)))))"

text \<open>
  The handler of \<^verbatim>\<open>startOpenAIForwarder\<close>. The package variables \<open>requestHook\<close> and
  \<open>responseHook\<close>, \<open>luaHookManager\<close> and \<open>traces\<close> are arguments.
\<close>

definition handler ::
  "env \<Rightarrow> LuaHookManager \<Rightarrow> (bytes \<Rightarrow> Header \<Rightarrow> bytes \<times> Header \<times> string option)
     \<Rightarrow> (bytes \<Rightarrow> Header \<Rightarrow> bytes \<times> Header \<times> string option)
     \<Rightarrow> Trace list \<Rightarrow> request \<Rightarrow> outcome" where
  "handler E lhm requestHook responseHook traces r =
     (let w = newResponseWriter in
      if \<not> HasPrefix (rPath r) ''/v1/'' then
        \<lparr>written = http_Error w ''Only /v1/ endpoints are supported'' 404, forwarded = None,
         history = traces, broadcast = None\<rparr>
      else
        (case rBody r of
           Inl err \<Rightarrow>
             \<lparr>written = http_Error w ''Failed to read request body'' 500, forwarded = None,
              history = traces, broadcast = None\<rparr>
         | Inr bodyBytes0 \<Rightarrow>
             (case requestHook bodyBytes0 (rHeader r) of
                (modifiedBody, modifiedHeaders, Some err) \<Rightarrow>
                  \<lparr>written = http_Error w ''Request hook error'' 500, forwarded = None,
                   history = traces, broadcast = None\<rparr>
              | (bodyBytes, hdr, None) \<Rightarrow>
                  (case http_NewRequest E (rMethod r) (targetURL r) of
                     Some err \<Rightarrow>
                       \<lparr>written = http_Error w ''Failed to create request'' 500, forwarded = None,
                        history = traces, broadcast = None\<rparr>
                   | None \<Rightarrow>
                       (let req = \<lparr>qMethod = rMethod r, qURL = targetURL r,
                                   qHeader = copyRequestHeaders hdr, qBody = bodyBytes\<rparr>
                        in case client_Do E req of
                             Inl err \<Rightarrow>
                               \<lparr>written = http_Error w ''Failed to forward request'' 502,
                                forwarded = Some req, history = traces, broadcast = None\<rparr>
                           | Inr resp \<Rightarrow>
                               (let w1 = w\<lparr>wHeader := copyResponseHeaders (respHeader resp) (wHeader w)\<rparr>;
                                    w2 = WriteHeader w1 (respStatusCode resp)
                                in if isStreaming resp
                                   then streamingPath E r hdr bodyBytes req resp w2 traces
                                   else bufferedPath E lhm responseHook r hdr bodyBytes req resp w2 traces))))))"

text \<open>
  The handler as the program runs it: \<^verbatim>\<open>SetRequestHook(promptHook)\<close>, and
  \<open>responseHook\<close> left at its default.
\<close>

definition proxy :: "env \<Rightarrow> LuaHookManager \<Rightarrow> Trace list \<Rightarrow> request \<Rightarrow> outcome" where
  "proxy E lhm traces r = handler E lhm (promptHook E lhm) defaultHook traces r"

section \<open>A model of encoding/json\<close>

text \<open>
  \<^verbatim>\<open>json.Unmarshal\<close> into a \<^verbatim>\<open>map[string]interface{}\<close> and \<^verbatim>\<open>json.Marshal\<close> of such a
  map, for the examples. The parser is a recursive descent with fuel; a call chain never
  is longer than the text, so the length of the text (plus one) is enough fuel.
  It covers objects, arrays, strings with the single-character escapes, the three
  literals and integers of at most 15 digits (which a float64 holds exactly and
  \<^verbatim>\<open>Marshal\<close> prints unchanged). Fractions, exponents, \<open>-0\<close> and \<open>\u\<close> escapes are
  outside this fragment and are rejected by the model; the examples do not use them.
  A later member of an object replaces an earlier one with the same key. \<^verbatim>\<open>Marshal\<close>
  writes the members of a map sorted by key, escapes \<open><\<close>, \<open>>\<close>, \<open>&\<close> and control
  bytes, and cannot fail on the values \<^verbatim>\<open>Unmarshal\<close> produces. Bytes from 0x80 on are
  copied as they are (Go replaces invalid UTF-8 sequences).
\<close>

definition isJSONSpace :: "char \<Rightarrow> bool" where
  "isJSONSpace c = (c = CHR 0x20 \<or> c = CHR 0x09 \<or> c = CHR 0x0D \<or> c = CHR 0x0A)"

fun skipWS :: "string \<Rightarrow> string" where
  "skipWS [] = []"
| "skipWS (c # cs) = (if isJSONSpace c then skipWS cs else c # cs)"

definition unescape :: "char \<Rightarrow> char option" where
  "unescape e =
     (if e = CHR 0x22 then Some (CHR 0x22)
      else if e = CHR 0x5C then Some (CHR 0x5C)
      else if e = CHR ''/'' then Some (CHR ''/'')
      else if e = CHR ''b'' then Some (CHR 0x08)
      else if e = CHR ''f'' then Some (CHR 0x0C)
      else if e = CHR ''n'' then Some (CHR 0x0A)
      else if e = CHR ''r'' then Some (CHR 0x0D)
      else if e = CHR ''t'' then Some (CHR 0x09)
      else None)"

fun parseStringTail :: "string \<Rightarrow> (string \<times> string) option" where
  "parseStringTail [] = None"
| "parseStringTail (c # cs) =
     (if c = CHR 0x22 then Some ([], cs)
      else if c = CHR 0x5C then
        (case cs of
           [] \<Rightarrow> None
         | e # cs' \<Rightarrow>
             (case unescape e of
                None \<Rightarrow> None
              | Some d \<Rightarrow> map_option (\<lambda>(s, r). (d # s, r)) (parseStringTail cs')))
      else if c < CHR 0x20 then None
      else map_option (\<lambda>(s, r). (c # s, r)) (parseStringTail cs))"

definition digitsValue :: "string \<Rightarrow> nat" where
  "digitsValue ds = foldl (\<lambda>acc d. 10 * acc + (of_char d - 48)) 0 ds"

definition parseNumber :: "string \<Rightarrow> (json \<times> string) option" where
  "parseNumber s =
     (let neg = (s \<noteq> [] \<and> hd s = CHR ''-'');
          s1 = (if neg then tl s else s);
          ds = takeWhile isDigitASCII s1;
          rest = dropWhile isDigitASCII s1
      in if ds = [] \<or> (length ds > 1 \<and> hd ds = CHR ''0'') \<or> length ds > 15
            \<or> (neg \<and> digitsValue ds = 0)
            \<or> (rest \<noteq> [] \<and> hd rest \<in> {CHR ''.'', CHR ''e'', CHR ''E''})
         then None
         else Some (JNumber (if neg then - int (digitsValue ds) else int (digitsValue ds)), rest))"

fun parseValue :: "nat \<Rightarrow> string \<Rightarrow> (json \<times> string) option"
  and parseElems :: "nat \<Rightarrow> string \<Rightarrow> (json list \<times> string) option"
  and parseMembers :: "nat \<Rightarrow> string \<Rightarrow> ((string \<times> json) list \<times> string) option" where
  "parseValue 0 s = None"
| "parseValue (Suc n) s =
     (case skipWS s of
        [] \<Rightarrow> None
      | c # r \<Rightarrow>
          if c = CHR ''{'' then
            (case skipWS r of
               [] \<Rightarrow> None
             | d # r' \<Rightarrow>
                 if d = CHR ''}'' then Some (JObject [], r')
                 else map_option (\<lambda>(ms, r''). (JObject (fold (\<lambda>(k, v) m. AList.update k v m) ms []), r''))
                        (parseMembers n (d # r')))
          else if c = CHR ''['' then
            (case skipWS r of
               [] \<Rightarrow> None
             | d # r' \<Rightarrow>
                 if d = CHR '']'' then Some (JArray [], r')
                 else map_option (\<lambda>(vs, r''). (JArray vs, r'')) (parseElems n (d # r')))
          else if c = CHR 0x22 then map_option (\<lambda>(str, r'). (JString str, r')) (parseStringTail r)
          else if HasPrefix (c # r) ''true'' then Some (JBool True, drop 4 (c # r))
          else if HasPrefix (c # r) ''false'' then Some (JBool False, drop 5 (c # r))
          else if HasPrefix (c # r) ''null'' then Some (JNull, drop 4 (c # r))
          else parseNumber (c # r))"
| "parseElems 0 s = None"
| "parseElems (Suc n) s =
     (case parseValue n s of
        None \<Rightarrow> None
      | Some (v, r) \<Rightarrow>
          (case skipWS r of
             [] \<Rightarrow> None
           | c # r' \<Rightarrow>
               if c = CHR '','' then map_option (\<lambda>(vs, r''). (v # vs, r'')) (parseElems n r')
               else if c = CHR '']'' then Some ([v], r')
               else None))"
| "parseMembers 0 s = None"
| "parseMembers (Suc n) s =
     (case skipWS s of
        [] \<Rightarrow> None
      | q # r \<Rightarrow>
          if q \<noteq> CHR 0x22 then None
          else
            (case parseStringTail r of
               None \<Rightarrow> None
             | Some (k, r1) \<Rightarrow>
                 (case skipWS r1 of
                    [] \<Rightarrow> None
                  | c # r2 \<Rightarrow>
                      if c \<noteq> CHR '':'' then None
                      else
                        (case parseValue n r2 of
                           None \<Rightarrow> None
                         | Some (v, r3) \<Rightarrow>
                             (case skipWS r3 of
                                [] \<Rightarrow> None
                              | c' # r4 \<Rightarrow>
                                  if c' = CHR '','' then map_option (\<lambda>(ms, r5). ((k, v) # ms, r5)) (parseMembers n r4)
                                  else if c' = CHR ''}'' then Some ([(k, v)], r4)
                                  else None)))))"

definition go_Unmarshal :: "bytes \<Rightarrow> string + (string \<times> json) list" where
  "go_Unmarshal body =
     (case parseValue (Suc (length body)) body of
        None \<Rightarrow> Inl ''invalid character''
      | Some (v, rest) \<Rightarrow>
          if skipWS rest \<noteq> [] then Inl ''invalid character after top-level value''
          else (case v of
                  JObject ms \<Rightarrow> Inr ms
                | JNull \<Rightarrow> Inr []
                | _ \<Rightarrow> Inl ''json: cannot unmarshal into Go value of type map[string]interface {}''))"

definition hexDigit :: "nat \<Rightarrow> char" where
  "hexDigit n = (if n < 10 then char_of (48 + n) else char_of (87 + n))"

definition escapeByte :: "char \<Rightarrow> string" where
  "escapeByte c =
     (if c = CHR 0x22 then [CHR 0x5C, CHR 0x22]
      else if c = CHR 0x5C then [CHR 0x5C, CHR 0x5C]
      else if c = CHR 0x0A then [CHR 0x5C, CHR ''n'']
      else if c = CHR 0x0D then [CHR 0x5C, CHR ''r'']
      else if c = CHR 0x09 then [CHR 0x5C, CHR ''t'']
      else if c < CHR 0x20 \<or> c = CHR ''<'' \<or> c = CHR ''>'' \<or> c = CHR ''&''
        then [CHR 0x5C, CHR ''u'', CHR ''0'', CHR ''0'',
              hexDigit (of_char c div 16), hexDigit (of_char c mod 16)]
      else [c])"

definition quoteJSON :: "string \<Rightarrow> string" where
  "quoteJSON s = [CHR 0x22] @ concat (map escapeByte s) @ [CHR 0x22]"

fun joinWith :: "char \<Rightarrow> string list \<Rightarrow> string" where
  "joinWith sep [] = []"
| "joinWith sep [x] = x"
| "joinWith sep (x # y # ys) = x @ sep # joinWith sep (y # ys)"

fun marshalValue :: "json \<Rightarrow> string"
  and marshalElems :: "json list \<Rightarrow> string list"
  and marshalMembers :: "(string \<times> json) list \<Rightarrow> (string \<times> string) list" where
  "marshalValue JNull = ''null''"
| "marshalValue (JBool b) = (if b then ''true'' else ''false'')"
| "marshalValue (JNumber i) = showInt i"
| "marshalValue (JString s) = quoteJSON s"
| "marshalValue (JArray vs) = ''['' @ joinWith (CHR '','') (marshalElems vs) @ '']''"
| "marshalValue (JObject ms) =
     ''{'' @ joinWith (CHR '','') (map (\<lambda>(k, txt). quoteJSON k @ '':'' @ txt)
                                     (sort_key fst (marshalMembers ms))) @ ''}''"
| "marshalElems [] = []"
| "marshalElems (v # vs) = marshalValue v # marshalElems vs"
| "marshalMembers [] = []"
| "marshalMembers ((k, v) # ms) = (k, marshalValue v) # marshalMembers ms"

definition go_Marshal :: "json \<Rightarrow> string + bytes" where
  "go_Marshal v = Inr (marshalValue v)"

text \<open>
  JSON text is written with a backquote in place of each double quote, which a string
  literal of the logic cannot contain; \<open>jsonText\<close> puts the double quotes back.
\<close>

definition jsonText :: "string \<Rightarrow> string" where
  "jsonText s = map (\<lambda>c. if c = CHR 0x60 then CHR 0x22 else c) s"

text \<open>
  The condition of the claim about loading, in the words of the specification: the file
  cannot be read, or the script cannot be parsed and executed, or it defines neither
  \<open>processRequest\<close> nor \<open>processResponse\<close>.
\<close>

definition loadFails :: "env \<Rightarrow> string \<Rightarrow> bool" where
  "loadFails E scriptPath =
     (case os_ReadFile E scriptPath of
        Inl err \<Rightarrow> True
      | Inr script \<Rightarrow>
          (case lua_DoString E script of
             Inl err \<Rightarrow> True
           | Inr L \<Rightarrow> \<not> isLTFunction (L ''processRequest'') \<and> \<not> isLTFunction (L ''processResponse'')))"

section \<open>Example environments\<close>

text \<open>
  An environment in which every external call fails: no file, no valid Lua chunk, no
  valid JSON, no valid compressed stream, no upstream. The examples override the
  fields they need.
\<close>

definition env0 :: env where
  "env0 = \<lparr>
     os_ReadFile = (\<lambda>path. Inl ''no such file or directory''),
     lua_DoString = (\<lambda>script. Inl ''syntax error''),
     lua_Call = (\<lambda>L f args. Inl ''runtime error''),
     lua_String = (\<lambda>v. ''?''),
     json_Unmarshal = (\<lambda>b. Inl ''invalid character''),
     json_Marshal = (\<lambda>v. Inl ''unsupported value''),
     gzip_NewReader = (\<lambda>b. Inl ''gzip: invalid header''),
     gzip_ReadAll = (\<lambda>b. Inl ''unexpected EOF''),
     brotli_ReadAll = (\<lambda>b. Inl ''brotli: corrupted input''),
     http_NewRequest = (\<lambda>m u. None),
     client_Do = (\<lambda>req. Inl ''connection refused''),
     generateTraceID = ''00000000000000aa'',
     time_Now = 0,
     time_Since = 0 \<rparr>"

text \<open>
  The script \<^verbatim>\<open>function processRequest(body, headers) return 'x' end\<close>: its chunk
  defines the global \<open>processRequest\<close>, and the function returns the single value
  \<open>'x'\<close> whatever its arguments.
\<close>

definition bodyOnlyScript :: string where
  "bodyOnlyScript = ''function processRequest(body, headers) return 'x' end''"

definition bodyOnlyEnv :: env where
  "bodyOnlyEnv = env0 \<lparr>
     os_ReadFile := (\<lambda>path. if path = ''hooks.lua'' then Inr bodyOnlyScript
                              else Inl ''no such file or directory''),
     lua_DoString := (\<lambda>script. if script = bodyOnlyScript
                                 then Inr (\<lambda>name. if name = ''processRequest'' then LFunction 0 else LNil)
                                 else Inl ''syntax error''),
     lua_Call := (\<lambda>L f args. if f = LFunction 0 then Inr [LString ''x'']
                               else Inl ''runtime error'') \<rparr>"

definition bodyOnlyManager :: LuaHookManager where
  "bodyOnlyManager = \<lparr>luaScript = bodyOnlyScript, enabled = True, hasRequest = True, hasResponse = False\<rparr>"

text \<open>
  The request of the first end-to-end scenario and an upstream answering it with a JSON
  body; \<open>goEnv\<close> is the environment with the model of \<^verbatim>\<open>encoding/json\<close> and this
  upstream.
\<close>

definition helloBody :: string where
  "helloBody = jsonText ''{`messages`:[{`role`:`user`,`content`:`Hello!`}]}''"

definition helloRequest :: request where
  "helloRequest = \<lparr>rMethod = ''POST'', rPath = ''/v1/chat/completions'', rRawQuery = [],
                    rHeader = [(''Content-Type'', [''application/json''])],
                    rBody = Inr helloBody\<rparr>"

definition jsonResponse :: upstream_response where
  "jsonResponse = \<lparr>respStatus = ''200 OK'', respStatusCode = 200,
                    respHeader = [(''Content-Type'', [''application/json''])],
                    respBody = jsonText ''{`id`:`chatcmpl-1`}'', respErr = None\<rparr>"

definition goEnv :: env where
  "goEnv = env0 \<lparr>json_Unmarshal := go_Unmarshal, json_Marshal := go_Marshal,
                  client_Do := (\<lambda>req. Inr jsonResponse)\<rparr>"

text \<open>An event stream, labelled as gzip-encoded to show that the label is not acted on.\<close>

definition sseResponse :: upstream_response where
  "sseResponse = \<lparr>respStatus = ''200 OK'', respStatusCode = 200,
                   respHeader = [(''Content-Type'', [''text/event-stream'']),
                                 (''Content-Encoding'', [''gzip''])],
                   respBody = ''data: hi'' @ [CHR 0x0A, CHR 0x0A], respErr = None\<rparr>"

text \<open>
  The script of the second end-to-end scenario,
  \<^verbatim>\<open>function processResponse(body, headers) headers['x-test'] = {'1'} return body, headers end\<close>:
  its chunk defines the global \<open>processResponse\<close> only, and the function returns its
  body argument and its header table with the entry \<open>x-test\<close> set to the list \<open>{'1'}\<close>.
\<close>

definition xtestScript :: string where
  "xtestScript = ''function processResponse(body, headers) headers['x-test'] = {'1'} return body, headers end''"

definition xtestEnv :: env where
  "xtestEnv = goEnv \<lparr>
     lua_DoString := (\<lambda>script. if script = xtestScript
                                 then Inr (\<lambda>name. if name = ''processResponse'' then LFunction 1 else LNil)
                                 else Inl ''syntax error''),
     lua_Call := (\<lambda>L f args.
                    (case args of
                       [b, LTable t] \<Rightarrow>
                         if f = LFunction 1
                         then Inr [b, LTable (AList.update (LString ''x-test'')
                                                (LTable [(LNumber 1, LString ''1'')]) t)]
                         else Inl ''runtime error''
                     | _ \<Rightarrow> Inl ''runtime error'')) \<rparr>"

definition xtestManager :: LuaHookManager where
  "xtestManager = \<lparr>luaScript = xtestScript, enabled = True, hasRequest = False, hasResponse = True\<rparr>"



definition sseEnv :: env where
  "sseEnv = xtestEnv \<lparr>client_Do := (\<lambda>req. Inr sseResponse)\<rparr>"

section \<open>Properties of the trace history\<close>

lemma tracesMax_pos: "0 < tracesMax"
  by (simp add: tracesMax_def)

lemma length_appendTrace_le: "length (appendTrace traces t) \<le> tracesMax"
  using tracesMax_pos by (auto simp: appendTrace_def Let_def)

lemma insertAll_snoc: "insertAll traces (ts @ [t]) = appendTrace (insertAll traces ts) t"
  by (induction ts arbitrary: traces) simp_all

lemma appendTrace_suffix:
  "appendTrace (drop (length xs - tracesMax) xs) t
     = drop (length (xs @ [t]) - tracesMax) (xs @ [t])"
proof (cases "length xs < tracesMax")
  case True
  then show ?thesis by (simp add: appendTrace_def Let_def)
next
  case False
  then have eq: "Suc (length xs) - tracesMax = Suc (length xs - tracesMax)"
    using tracesMax_pos by arith
  from False have "tracesMax < Suc (length xs - (length xs - tracesMax))"
    by arith
  then show ?thesis
    using False tracesMax_pos by (simp add: appendTrace_def Let_def eq)
qed

lemma insertAll_suffix:
  "ts \<noteq> [] \<Longrightarrow> insertAll traces ts = drop (length (traces @ ts) - tracesMax) (traces @ ts)"
proof (induction ts rule: rev_induct)
  case Nil
  then show ?case by simp
next
  case (snoc t ts)
  show ?case
  proof (cases "ts = []")
    case True
    then show ?thesis by (simp add: appendTrace_def Let_def)
  next
    case False
    have "insertAll traces (ts @ [t]) = appendTrace (insertAll traces ts) t"
      by (rule insertAll_snoc)
    also have "\<dots> = appendTrace (drop (length (traces @ ts) - tracesMax) (traces @ ts)) t"
      by (simp only: snoc.IH [OF False])
    also have "\<dots> = drop (length ((traces @ ts) @ [t]) - tracesMax) ((traces @ ts) @ [t])"
      by (rule appendTrace_suffix)
    finally show ?thesis by simp
  qed
qed

lemma insertAll_empty: "insertAll [] ts = drop (length ts - tracesMax) ts"
  by (cases "ts = []") (simp_all add: insertAll_suffix)

text \<open>
  C3. After inserting \<open>tracesMax + k\<close> traces with \<open>k \<ge> 1\<close>, into the empty history of
  the program start or into any other, the history has exactly \<open>tracesMax = 100\<close>
  entries, and they are the last 100 inserted traces in insertion order (the first \<open>k\<close>
  and everything older were evicted, oldest first). After every insertion, into any
  history whatsoever, the length is at most 100; so it is after every prefix of the
  insertions since the program start.
\<close>

theorem trace_history_fifo:
  assumes "1 \<le> k" and "length ts = tracesMax + k"
  shows "tracesMax = 100 \<and>
         length (insertAll traces ts) = tracesMax \<and>
         insertAll traces ts = drop k ts \<and>
         (\<forall>(h :: 'a list) t. length (appendTrace h t) \<le> tracesMax) \<and>
         (\<forall>n. length (insertAll [] (take n ts)) \<le> tracesMax)"
proof (intro conjI allI)
  show "tracesMax = 100" by (rule tracesMax_def)
next
  from assms have ne: "ts \<noteq> []" by auto
  from assms have e: "length (traces @ ts) - tracesMax = length traces + k" by simp
  have "insertAll traces ts = drop (length traces + k) (traces @ ts)"
    using insertAll_suffix [OF ne, of traces] by (simp only: e)
  then show eq: "insertAll traces ts = drop k ts" by simp
  with assms show "length (insertAll traces ts) = tracesMax" by simp
next
  fix h :: "'a list" and t
  show "length (appendTrace h t) \<le> tracesMax"
    by (rule length_appendTrace_le)
next
  fix n
  show "length (insertAll [] (take n ts)) \<le> tracesMax"
    by (simp add: insertAll_empty)
qed

text \<open>The theorem at 101 insertions (\<open>k = 1\<close>): the traces numbered 1 to 100 remain.\<close>

theorem trace_history_fifo_witness:
  "(1::nat) \<le> 1 \<and> length [0..<101] = tracesMax + 1 \<and>
   length (insertAll [] [0..<101]) = 100 \<and> insertAll [] [0..<101] = [1..<101]"
proof -
  have "length [0..<101] = tracesMax + 1"
    by (simp add: tracesMax_def)
  from trace_history_fifo [OF order_refl this, of "[]"]
  have "length (insertAll [] [0..<101]) = tracesMax"
    and "insertAll [] [0..<101] = drop 1 [0..<101]"
    by blast+
  then show ?thesis
    by (simp add: tracesMax_def)
qed

section \<open>Loading a hook script\<close>

text \<open>
  C7. \<^verbatim>\<open>LoadHookScript\<close> returns an error exactly when the file cannot be read, the
  script cannot be run, or it defines neither entry point. On an error the manager is
  returned as it was (script, flags and \<open>enabled\<close> untouched); on success the script,
  the two entry-point flags found in the throwaway state and \<open>enabled = True\<close> are all
  installed.
\<close>

theorem LoadHookScript_all_or_nothing:
  "(snd (LoadHookScript E lhm scriptPath) \<noteq> None \<longleftrightarrow> loadFails E scriptPath) \<and>
   (snd (LoadHookScript E lhm scriptPath) \<noteq> None \<longrightarrow> fst (LoadHookScript E lhm scriptPath) = lhm) \<and>
   (snd (LoadHookScript E lhm scriptPath) = None \<longrightarrow>
      (\<exists>script L. os_ReadFile E scriptPath = Inr script \<and> lua_DoString E script = Inr L \<and>
         fst (LoadHookScript E lhm scriptPath) =
           \<lparr>luaScript = script, enabled = True,
            hasRequest = isLTFunction (L ''processRequest''),
            hasResponse = isLTFunction (L ''processResponse'')\<rparr>))"
proof (cases "os_ReadFile E scriptPath")
  case (Inl err)
  then show ?thesis by (simp add: LoadHookScript_def loadFails_def)
next
  case (Inr script)
  note rd = this
  show ?thesis
  proof (cases "lua_DoString E script")
    case (Inl err)
    with rd show ?thesis by (simp add: LoadHookScript_def loadFails_def)
  next
    case (Inr L)
    with rd show ?thesis
      by (cases lhm) (simp add: LoadHookScript_def loadFails_def Let_def)
  qed
qed

text \<open>A failing load (no such file) over a loaded manager, and a successful load.\<close>

theorem LoadHookScript_all_or_nothing_witness:
  "snd (LoadHookScript env0 bodyOnlyManager ''missing.lua'') \<noteq> None \<and>
   fst (LoadHookScript env0 bodyOnlyManager ''missing.lua'') = bodyOnlyManager \<and>
   snd (LoadHookScript bodyOnlyEnv luaHookManager0 ''hooks.lua'') = None \<and>
   fst (LoadHookScript bodyOnlyEnv luaHookManager0 ''hooks.lua'') = bodyOnlyManager"
proof -
  have f: "snd (LoadHookScript env0 bodyOnlyManager ''missing.lua'') \<noteq> None"
    by (simp add: LoadHookScript_def env0_def)
  have s: "snd (LoadHookScript bodyOnlyEnv luaHookManager0 ''hooks.lua'') = None"
    by (simp add: LoadHookScript_def bodyOnlyEnv_def env0_def isLTFunction_def Let_def)
  from f LoadHookScript_all_or_nothing [of env0 bodyOnlyManager "''missing.lua''"]
  have 1: "fst (LoadHookScript env0 bodyOnlyManager ''missing.lua'') = bodyOnlyManager"
    by blast
  from s LoadHookScript_all_or_nothing [of bodyOnlyEnv luaHookManager0 "''hooks.lua''"]
  obtain script L where "os_ReadFile bodyOnlyEnv ''hooks.lua'' = Inr script"
    and "lua_DoString bodyOnlyEnv script = Inr L"
    and "fst (LoadHookScript bodyOnlyEnv luaHookManager0 ''hooks.lua'') =
           \<lparr>luaScript = script, enabled = True,
            hasRequest = isLTFunction (L ''processRequest''),
            hasResponse = isLTFunction (L ''processResponse'')\<rparr>"
    by blast
  then have 2: "fst (LoadHookScript bodyOnlyEnv luaHookManager0 ''hooks.lua'') = bodyOnlyManager"
    by (auto simp: bodyOnlyEnv_def env0_def bodyOnlyManager_def isLTFunction_def split: if_splits)
  from f 1 s 2 show ?thesis by simp
qed

section \<open>Headers through the Lua table and back\<close>

lemma update_fresh: "k \<notin> fst ` set acc \<Longrightarrow> AList.update k v acc = acc @ [(k, v)]"
  by (induction acc) auto

lemma fold_update_fresh:
  "distinct (map fst kvs) \<Longrightarrow> fst ` set kvs \<inter> fst ` set acc = {} \<Longrightarrow>
   fold (\<lambda>(k, v) t. AList.update k v t) kvs acc = acc @ kvs"
proof (induction kvs arbitrary: acc)
  case Nil
  then show ?case by simp
next
  case (Cons kv kvs)
  obtain k v where kv: "kv = (k, v)" by (cases kv)
  from Cons.prems have fresh: "k \<notin> fst ` set acc" by (auto simp: kv)
  have "fst ` set kvs \<inter> fst ` set (acc @ [(k, v)]) = {}"
    using Cons.prems by (auto simp: kv)
  moreover have "distinct (map fst kvs)" using Cons.prems by simp
  ultimately have "fold (\<lambda>(k, v) t. AList.update k v t) kvs (acc @ [(k, v)]) = (acc @ [(k, v)]) @ kvs"
    by (rule Cons.IH[rotated])
  then show ?case by (simp add: kv update_fresh[OF fresh])
qed

lemma LValue_String_LString: "LValue_String E (LString s) = s"
  by (simp add: LValue_String_def)

lemma valueTableOf_eq:
  "valueTableOf values = map (\<lambda>p. (LNumber (int (fst p) + 1), LString (snd p))) (enumerate 0 values)"
proof -
  let ?g = "\<lambda>p. (LNumber (int (fst p) + 1), LString (snd p))"
  have "map fst (map ?g (enumerate 0 values)) = map (\<lambda>i. LNumber (int i + 1)) (map fst (enumerate 0 values))"
    by (simp only: map_map comp_def fst_conv)
  also have "\<dots> = map (\<lambda>i. LNumber (int i + 1)) [0..<length values]"
    by simp
  finally have d: "distinct (map fst (map ?g (enumerate 0 values)))"
    by (simp add: distinct_map inj_on_def)
  have "valueTableOf values = fold (\<lambda>(k, v) t. AList.update k v t) (map ?g (enumerate 0 values)) []"
    by (simp add: valueTableOf_def RawSetInt_def fold_map comp_def case_prod_unfold)
  also have "\<dots> = [] @ map ?g (enumerate 0 values)"
    by (rule fold_update_fresh[OF d]) simp
  finally show ?thesis by simp
qed

lemma valueTableOf_strings: "map (\<lambda>p. LValue_String E (snd p)) (valueTableOf values) = values"
proof -
  have "map (\<lambda>p. LValue_String E (snd p)) (valueTableOf values) = map snd (enumerate 0 values)"
    by (simp add: valueTableOf_eq LValue_String_def comp_def)
  then show ?thesis by simp
qed

lemma httpHeaderToLuaTable_eq:
  assumes "distinct (map (\<lambda>p. ToLower (fst p)) headers)"
  shows "httpHeaderToLuaTable headers
           = map (\<lambda>p. (LString (ToLower (fst p)), LTable (valueTableOf (snd p)))) headers"
proof -
  let ?g = "\<lambda>p. (LString (ToLower (fst p)), LTable (valueTableOf (snd p)))"
  have "map fst (map ?g headers) = map LString (map (\<lambda>p. ToLower (fst p)) headers)"
    by (simp add: comp_def)
  with assms have d: "distinct (map fst (map ?g headers))"
    by (simp add: distinct_map inj_on_def)
  have "httpHeaderToLuaTable headers = fold (\<lambda>(k, v) t. AList.update k v t) (map ?g headers) []"
    by (simp add: httpHeaderToLuaTable_def RawSetString_def fold_map comp_def case_prod_unfold)
  also have "\<dots> = [] @ map ?g headers"
    by (rule fold_update_fresh[OF d]) simp
  finally show ?thesis by simp
qed

lemma luaTableToHttpHeader_eq:
  assumes "distinct (map (\<lambda>p. ToLower (fst p)) headers)"
  shows "luaTableToHttpHeader E
           (map (\<lambda>p. (LString (ToLower (fst p)), LTable (valueTableOf (snd p)))) headers)
         = map (\<lambda>p. (ToLower (fst p), snd p)) headers"
proof -
  let ?g = "\<lambda>p. (LString (ToLower (fst p)), LTable (valueTableOf (snd p)))"
  let ?h = "\<lambda>p. (ToLower (fst p), snd p :: string list)"
  have "map fst (map ?h headers) = map (\<lambda>p. ToLower (fst p)) headers"
    by (simp add: comp_def)
  with assms have d: "distinct (map fst (map ?h headers))" by (simp add: comp_def)
  have "luaTableToHttpHeader E (map ?g headers)
          = fold (\<lambda>(k, v) t. AList.update k v t) (map ?h headers) []"
    by (simp add: luaTableToHttpHeader_def fold_map comp_def case_prod_unfold
                  LValue_String_LString valueTableOf_strings)
  also have "\<dots> = [] @ map ?h headers"
    by (rule fold_update_fresh[OF d]) simp
  finally show ?thesis by simp
qed

text \<open>
  C9 (as amended). \<^verbatim>\<open>httpHeaderToLuaTable\<close> lower-cases every key, and
  \<^verbatim>\<open>luaTableToHttpHeader\<close> takes the keys of the table as they are. For a header map
  no two keys of which have the same lower-case form, the round trip gives the map with
  every key lower-cased and every list of values unchanged (in order, duplicates and
  empty lists included); so it reproduces the map exactly when the keys are lower-case
  already.
\<close>

theorem header_roundtrip_lowercase:
  assumes "distinct (map (\<lambda>(name, values). ToLower name) headers)"
  shows "luaTableToHttpHeader E (httpHeaderToLuaTable headers)
           = map (\<lambda>(name, values). (ToLower name, values)) headers \<and>
         ((\<forall>name \<in> fst ` set headers. ToLower name = name) \<longrightarrow>
            luaTableToHttpHeader E (httpHeaderToLuaTable headers) = headers)"
proof -
  from assms have d: "distinct (map (\<lambda>p. ToLower (fst p)) headers)"
    by (simp add: case_prod_unfold)
  have eq: "luaTableToHttpHeader E (httpHeaderToLuaTable headers)
           = map (\<lambda>(name, values). (ToLower name, values)) headers"
    by (simp add: httpHeaderToLuaTable_eq[OF d] luaTableToHttpHeader_eq[OF d] case_prod_unfold)
  moreover have "map (\<lambda>(name, values). (ToLower name, values)) headers = headers"
    if "\<forall>name \<in> fst ` set headers. ToLower name = name"
    using that by (induction headers) auto
  ultimately show ?thesis by simp
qed

text \<open>Lower-case keys, with a duplicated value and a key without values.\<close>

theorem header_roundtrip_lowercase_witness:
  "distinct (map (\<lambda>(name, values). ToLower name)
      [(''content-type'', [''application/json'']), (''x-dup'', [''a'', ''a'']), (''x-none'', [])]) \<and>
   ToLower ''content-type'' = ''content-type'' \<and> ToLower ''x-dup'' = ''x-dup'' \<and>
   ToLower ''x-none'' = ''x-none'' \<and>
   luaTableToHttpHeader env0 (httpHeaderToLuaTable
      [(''content-type'', [''application/json'']), (''x-dup'', [''a'', ''a'']), (''x-none'', [])])
     = [(''content-type'', [''application/json'']), (''x-dup'', [''a'', ''a'']), (''x-none'', [])]"
proof -
  let ?h = "[(''content-type'', [''application/json'']), (''x-dup'', [''a'', ''a'']), (''x-none'', [])]"
  have low: "\<forall>name \<in> fst ` set ?h. ToLower name = name"
    by (simp add: ToLower_def toLowerByte_def isUpperASCII_def)
  have d: "distinct (map (\<lambda>(name, values). ToLower name) ?h)"
    by (simp add: ToLower_def toLowerByte_def isUpperASCII_def)
  from header_roundtrip_lowercase [OF d, of env0] low
  have "luaTableToHttpHeader env0 (httpHeaderToLuaTable ?h) = ?h"
    by blast
  with low d show ?thesis by simp
qed

text \<open>
  The claim as stated fails on a header in Go's canonical spelling: \<open>Content-Type\<close>
  comes back as \<open>content-type\<close>, and the key \<open>Content-Type\<close> is gone.
\<close>

theorem header_roundtrip_counterexample:
  "luaTableToHttpHeader env0 (httpHeaderToLuaTable [(''Content-Type'', [''application/json''])])
     = [(''content-type'', [''application/json''])] \<and>
   map_of (luaTableToHttpHeader env0 (httpHeaderToLuaTable [(''Content-Type'', [''application/json''])]))
      ''Content-Type'' = None"
  by (simp add: luaTableToHttpHeader_def httpHeaderToLuaTable_def valueTableOf_def RawSetInt_def
        RawSetString_def LValue_String_def ToLower_def toLowerByte_def isUpperASCII_def)

section \<open>Failing hooks\<close>

lemma executeHook_no_error: "snd (snd (executeHook E script fname body headers)) = None"
  by (simp add: executeHook_def Let_def split: sum.splits list.splits)

lemma executeHook_fails:
  "hookFails E script fname body headers \<Longrightarrow>
   executeHook E script fname body headers = (body, headers, None)"
  by (auto simp: executeHook_def hookFails_def PCall_def isl_def split: sum.splits)

lemma executeHook_returns:
  assumes "lua_DoString E script = Inr L" and "isLTFunction (L fname)"
    and "lua_Call E L (L fname) [LString body, LTable (httpHeaderToLuaTable headers)] = Inr rets"
  shows "executeHook E script fname body headers =
           ((case rets of LString s # _ \<Rightarrow> s | _ \<Rightarrow> body),
            (case rets of _ # LTable t # _ \<Rightarrow> luaTableToHttpHeader E t | _ \<Rightarrow> headers),
            None)"
proof (cases rets)
  case Nil
  with assms show ?thesis by (simp add: executeHook_def PCall_def numeral_2_eq_2)
next
  case (Cons x xs)
  show ?thesis
  proof (cases xs)
    case Nil
    with Cons assms show ?thesis by (simp add: executeHook_def PCall_def numeral_2_eq_2 split: LValue.splits)
  next
    case (Cons y ys)
    with \<open>rets = x # xs\<close> assms show ?thesis
      by (simp add: executeHook_def PCall_def numeral_2_eq_2 split: LValue.splits)
  qed
qed

text \<open>
  C2 (as amended). \<^verbatim>\<open>ExecuteRequestHook\<close> and \<^verbatim>\<open>ExecuteResponseHook\<close> never return
  an error. When the script raises an error (running its chunk or calling the entry
  point), or does not define the entry point, they return the input body and the input
  headers. When the entry point returns, the two results are taken one by one: the body
  is the first returned value if that is a string and the input body otherwise; the
  headers are the conversion of the second returned value if that is a table and the
  input headers otherwise. So a return of the wrong arity or types falls back per value,
  not as a whole.
\<close>

theorem hooks_fail_open:
  "snd (snd (ExecuteRequestHook E lhm body headers)) = None \<and>
   snd (snd (ExecuteResponseHook E lhm body headers)) = None \<and>
   (hookFails E (luaScript lhm) ''processRequest'' body headers \<or> \<not> hasRequest lhm \<longrightarrow>
      ExecuteRequestHook E lhm body headers = (body, headers, None)) \<and>
   (hookFails E (luaScript lhm) ''processResponse'' body headers \<or> \<not> hasResponse lhm \<longrightarrow>
      ExecuteResponseHook E lhm body headers = (body, headers, None)) \<and>
   (\<forall>L rets. enabled lhm \<and> hasRequest lhm \<and> luaScript lhm \<noteq> [] \<and>
        lua_DoString E (luaScript lhm) = Inr L \<and> isLTFunction (L ''processRequest'') \<and>
        lua_Call E L (L ''processRequest'') [LString body, LTable (httpHeaderToLuaTable headers)] = Inr rets \<longrightarrow>
        ExecuteRequestHook E lhm body headers =
          ((case rets of LString s # _ \<Rightarrow> s | _ \<Rightarrow> body),
           (case rets of _ # LTable t # _ \<Rightarrow> luaTableToHttpHeader E t | _ \<Rightarrow> headers),
           None)) \<and>
   (\<forall>L rets. enabled lhm \<and> hasResponse lhm \<and> luaScript lhm \<noteq> [] \<and>
        lua_DoString E (luaScript lhm) = Inr L \<and> isLTFunction (L ''processResponse'') \<and>
        lua_Call E L (L ''processResponse'') [LString body, LTable (httpHeaderToLuaTable headers)] = Inr rets \<longrightarrow>
        ExecuteResponseHook E lhm body headers =
          ((case rets of LString s # _ \<Rightarrow> s | _ \<Rightarrow> body),
           (case rets of _ # LTable t # _ \<Rightarrow> luaTableToHttpHeader E t | _ \<Rightarrow> headers),
           None))"
proof (intro conjI allI impI)
  show "snd (snd (ExecuteRequestHook E lhm body headers)) = None"
    by (simp add: ExecuteRequestHook_def executeHook_no_error)
  show "snd (snd (ExecuteResponseHook E lhm body headers)) = None"
    by (simp add: ExecuteResponseHook_def executeHook_no_error)
  show "ExecuteRequestHook E lhm body headers = (body, headers, None)"
    if "hookFails E (luaScript lhm) ''processRequest'' body headers \<or> \<not> hasRequest lhm"
    using that by (auto simp: ExecuteRequestHook_def executeHook_fails)
  show "ExecuteResponseHook E lhm body headers = (body, headers, None)"
    if "hookFails E (luaScript lhm) ''processResponse'' body headers \<or> \<not> hasResponse lhm"
    using that by (auto simp: ExecuteResponseHook_def executeHook_fails)
next
  fix L rets
  assume "enabled lhm \<and> hasRequest lhm \<and> luaScript lhm \<noteq> [] \<and>
        lua_DoString E (luaScript lhm) = Inr L \<and> isLTFunction (L ''processRequest'') \<and>
        lua_Call E L (L ''processRequest'') [LString body, LTable (httpHeaderToLuaTable headers)] = Inr rets"
  then show "ExecuteRequestHook E lhm body headers =
          ((case rets of LString s # _ \<Rightarrow> s | _ \<Rightarrow> body),
           (case rets of _ # LTable t # _ \<Rightarrow> luaTableToHttpHeader E t | _ \<Rightarrow> headers),
           None)"
    by (simp add: ExecuteRequestHook_def executeHook_returns)
next
  fix L rets
  assume "enabled lhm \<and> hasResponse lhm \<and> luaScript lhm \<noteq> [] \<and>
        lua_DoString E (luaScript lhm) = Inr L \<and> isLTFunction (L ''processResponse'') \<and>
        lua_Call E L (L ''processResponse'') [LString body, LTable (httpHeaderToLuaTable headers)] = Inr rets"
  then show "ExecuteResponseHook E lhm body headers =
          ((case rets of LString s # _ \<Rightarrow> s | _ \<Rightarrow> body),
           (case rets of _ # LTable t # _ \<Rightarrow> luaTableToHttpHeader E t | _ \<Rightarrow> headers),
           None)"
    by (simp add: ExecuteResponseHook_def executeHook_returns)
qed

text \<open>
  A script whose chunk fails, a manager without response entry point, and the script
  returning the single value \<open>'x'\<close>.
\<close>

theorem hooks_fail_open_witness:
  "hookFails env0 (luaScript bodyOnlyManager) ''processRequest'' ''{}'' [(''a'', [''b''])] \<and>
   ExecuteRequestHook env0 bodyOnlyManager ''{}'' [(''a'', [''b''])] = (''{}'', [(''a'', [''b''])], None) \<and>
   \<not> hasResponse bodyOnlyManager \<and>
   ExecuteResponseHook bodyOnlyEnv bodyOnlyManager ''{}'' [(''a'', [''b''])] = (''{}'', [(''a'', [''b''])], None) \<and>
   ExecuteRequestHook bodyOnlyEnv bodyOnlyManager ''{}'' [(''a'', [''b''])] = (''x'', [(''a'', [''b''])], None)"
proof -
  let ?L = "\<lambda>name. if name = ''processRequest'' then LFunction 0 else LNil"
  have f: "hookFails env0 (luaScript bodyOnlyManager) ''processRequest'' ''{}'' [(''a'', [''b''])]"
    by (simp add: hookFails_def env0_def)
  have nr: "\<not> hasResponse bodyOnlyManager"
    by (simp add: bodyOnlyManager_def)
  have run: "enabled bodyOnlyManager \<and> hasRequest bodyOnlyManager \<and> luaScript bodyOnlyManager \<noteq> [] \<and>
        lua_DoString bodyOnlyEnv (luaScript bodyOnlyManager) = Inr ?L \<and>
        isLTFunction (?L ''processRequest'') \<and>
        lua_Call bodyOnlyEnv ?L (?L ''processRequest'')
          [LString ''{}'', LTable (httpHeaderToLuaTable [(''a'', [''b''])])] = Inr [LString ''x'']"
    by (simp add: bodyOnlyManager_def bodyOnlyEnv_def env0_def bodyOnlyScript_def isLTFunction_def)
  from f hooks_fail_open [of env0 bodyOnlyManager "''{}''" "[(''a'', [''b''])]"]
  have 1: "ExecuteRequestHook env0 bodyOnlyManager ''{}'' [(''a'', [''b''])] = (''{}'', [(''a'', [''b''])], None)"
    by blast
  from nr hooks_fail_open [of bodyOnlyEnv bodyOnlyManager "''{}''" "[(''a'', [''b''])]"]
  have 2: "ExecuteResponseHook bodyOnlyEnv bodyOnlyManager ''{}'' [(''a'', [''b''])] = (''{}'', [(''a'', [''b''])], None)"
    by blast
  from hooks_fail_open [of bodyOnlyEnv bodyOnlyManager "''{}''" "[(''a'', [''b''])]"]
  have "\<forall>L rets. enabled bodyOnlyManager \<and> hasRequest bodyOnlyManager \<and> luaScript bodyOnlyManager \<noteq> [] \<and>
        lua_DoString bodyOnlyEnv (luaScript bodyOnlyManager) = Inr L \<and> isLTFunction (L ''processRequest'') \<and>
        lua_Call bodyOnlyEnv L (L ''processRequest'') [LString ''{}'', LTable (httpHeaderToLuaTable [(''a'', [''b''])])] = Inr rets \<longrightarrow>
        ExecuteRequestHook bodyOnlyEnv bodyOnlyManager ''{}'' [(''a'', [''b''])] =
          ((case rets of LString s # _ \<Rightarrow> s | _ \<Rightarrow> ''{}''),
           (case rets of _ # LTable t # _ \<Rightarrow> luaTableToHttpHeader bodyOnlyEnv t | _ \<Rightarrow> [(''a'', [''b''])]),
           None)"
    by blast
  from this [rule_format, OF run]
  have 3: "ExecuteRequestHook bodyOnlyEnv bodyOnlyManager ''{}'' [(''a'', [''b''])] = (''x'', [(''a'', [''b''])], None)"
    by simp
  from f 1 nr 2 3 show ?thesis by blast
qed

text \<open>
  The claim as stated fails for an entry point of the wrong arity: the script that
  returns only \<open>'x'\<close> replaces the body \<open>{}\<close> by \<open>x\<close>.
\<close>

theorem hook_wrong_arity_counterexample:
  "ExecuteRequestHook bodyOnlyEnv bodyOnlyManager ''{}'' [(''Content-Type'', [''application/json''])]
     = (''x'', [(''Content-Type'', [''application/json''])], None) \<and>
   ExecuteRequestHook bodyOnlyEnv bodyOnlyManager ''{}'' [(''Content-Type'', [''application/json''])]
     \<noteq> (''{}'', [(''Content-Type'', [''application/json''])], None)"
  by (simp add: ExecuteRequestHook_def executeHook_def PCall_def numeral_2_eq_2 bodyOnlyEnv_def env0_def
        bodyOnlyManager_def bodyOnlyScript_def isLTFunction_def)

section \<open>The content codec\<close>

text \<open>
  C8. For every body and encoding: with encoding \<open>gzip\<close>, when the gzip reader cannot
  be constructed or cannot be drained, and with encoding \<open>br\<close>, when the brotli reader
  cannot be drained, \<^verbatim>\<open>decompressBody\<close> returns the original bytes and a non-nil
  error; with any other encoding (the empty one and \<open>identity\<close> included) it returns the
  body unchanged and no error.
\<close>

theorem decompressBody_contract:
  "(encoding = ''gzip'' \<and>
      (isl (gzip_NewReader E body) \<or>
       (\<exists>reader. gzip_NewReader E body = Inr reader \<and> isl (gzip_ReadAll E reader))) \<longrightarrow>
      fst (decompressBody E body encoding) = body \<and> snd (decompressBody E body encoding) \<noteq> None) \<and>
   (encoding = ''br'' \<and> isl (brotli_ReadAll E body) \<longrightarrow>
      fst (decompressBody E body encoding) = body \<and> snd (decompressBody E body encoding) \<noteq> None) \<and>
   (encoding \<noteq> ''gzip'' \<and> encoding \<noteq> ''br'' \<longrightarrow> decompressBody E body encoding = (body, None))"
proof -
  have gz: "fst (decompressBody E body encoding) = body \<and> snd (decompressBody E body encoding) \<noteq> None"
    if a: "encoding = ''gzip'' \<and>
      (isl (gzip_NewReader E body) \<or>
       (\<exists>reader. gzip_NewReader E body = Inr reader \<and> isl (gzip_ReadAll E reader)))"
  proof -
    from a consider
        (construct) err where "gzip_NewReader E body = Inl err"
      | (drain) reader err where "gzip_NewReader E body = Inr reader" "gzip_ReadAll E reader = Inl err"
      by (auto simp: isl_def)
    then show ?thesis
    proof cases
      case construct
      with a show ?thesis by (simp add: decompressBody_def)
    next
      case drain
      with a show ?thesis by (simp add: decompressBody_def)
    qed
  qed
  have br: "fst (decompressBody E body encoding) = body \<and> snd (decompressBody E body encoding) \<noteq> None"
    if a: "encoding = ''br'' \<and> isl (brotli_ReadAll E body)"
  proof -
    from a obtain err where "encoding = ''br''" and "brotli_ReadAll E body = Inl err"
      by (auto simp: isl_def)
    then show ?thesis by (simp add: decompressBody_def)
  qed
  have other: "decompressBody E body encoding = (body, None)"
    if "encoding \<noteq> ''gzip'' \<and> encoding \<noteq> ''br''"
    using that by (simp add: decompressBody_def)
  from gz br other show ?thesis by blast
qed

text \<open>
  A stream without gzip header, one whose reader opens but fails while draining, corrupt
  brotli, and the encodings \<open>identity\<close> and empty.
\<close>

theorem decompressBody_contract_witness:
  "decompressBody env0 ''abc'' ''gzip'' = (''abc'', Some ''gzip: invalid header'') \<and>
   decompressBody (env0\<lparr>gzip_NewReader := Inr\<rparr>) ''abc'' ''gzip'' = (''abc'', Some ''unexpected EOF'') \<and>
   decompressBody env0 ''abc'' ''br'' = (''abc'', Some ''brotli: corrupted input'') \<and>
   decompressBody env0 ''abc'' ''identity'' = (''abc'', None) \<and>
   decompressBody env0 ''abc'' [] = (''abc'', None)"
proof -
  have 1: "isl (gzip_NewReader env0 ''abc'')"
    by (simp add: env0_def)
  have 2: "gzip_NewReader (env0\<lparr>gzip_NewReader := Inr\<rparr>) ''abc'' = Inr ''abc'' \<and>
           isl (gzip_ReadAll (env0\<lparr>gzip_NewReader := Inr\<rparr>) ''abc'')"
    by (simp add: env0_def)
  have 3: "isl (brotli_ReadAll env0 ''abc'')"
    by (simp add: env0_def)
  have 4: "''identity'' \<noteq> ''gzip'' \<and> ''identity'' \<noteq> ''br''" by simp
  have 5: "[] \<noteq> ''gzip'' \<and> [] \<noteq> ''br''" by simp
  from 1 decompressBody_contract [of "''gzip''" env0 "''abc''"]
  have a: "fst (decompressBody env0 ''abc'' ''gzip'') = ''abc''" by blast
  from 2 decompressBody_contract [of "''gzip''" "env0\<lparr>gzip_NewReader := Inr\<rparr>" "''abc''"]
  have b: "fst (decompressBody (env0\<lparr>gzip_NewReader := Inr\<rparr>) ''abc'' ''gzip'') = ''abc''" by blast
  from 3 decompressBody_contract [of "''br''" env0 "''abc''"]
  have c: "fst (decompressBody env0 ''abc'' ''br'') = ''abc''" by blast
  from 4 decompressBody_contract [of "''identity''" env0 "''abc''"]
  have d: "decompressBody env0 ''abc'' ''identity'' = (''abc'', None)" by blast
  from 5 decompressBody_contract [of "[]" env0 "''abc''"]
  have e: "decompressBody env0 ''abc'' [] = (''abc'', None)" by blast
  have a': "snd (decompressBody env0 ''abc'' ''gzip'') = Some ''gzip: invalid header''"
    by (simp add: decompressBody_def env0_def)
  have b': "snd (decompressBody (env0\<lparr>gzip_NewReader := Inr\<rparr>) ''abc'' ''gzip'') = Some ''unexpected EOF''"
    by (simp add: decompressBody_def env0_def)
  have c': "snd (decompressBody env0 ''abc'' ''br'') = Some ''brotli: corrupted input''"
    by (simp add: decompressBody_def env0_def)
  from a a' b b' c c' d e show ?thesis
    by (simp add: prod_eq_iff)
qed

section \<open>The handler\<close>

text \<open>The handler up to the classification of the upstream response.\<close>

lemma handler_upstream:
  assumes "HasPrefix (rPath r) ''/v1/''"
    and "rBody r = Inr rawBody"
    and "requestHook rawBody (rHeader r) = (bodyBytes, hdr, None)"
    and "http_NewRequest E (rMethod r) (targetURL r) = None"
    and "client_Do E \<lparr>qMethod = rMethod r, qURL = targetURL r,
                      qHeader = copyRequestHeaders hdr, qBody = bodyBytes\<rparr> = Inr resp"
  shows "handler E lhm requestHook responseHook traces r =
           (let req = \<lparr>qMethod = rMethod r, qURL = targetURL r,
                       qHeader = copyRequestHeaders hdr, qBody = bodyBytes\<rparr>;
                w2 = \<lparr>wHeader = copyResponseHeaders (respHeader resp) [],
                      wCommitted = Some (respStatusCode resp, copyResponseHeaders (respHeader resp) []),
                      wBody = []\<rparr>
            in if isStreaming resp
               then streamingPath E r hdr bodyBytes req resp w2 traces
               else bufferedPath E lhm responseHook r hdr bodyBytes req resp w2 traces)"
  using assms by (simp add: handler_def Let_def newResponseWriter_def WriteHeader_def)






text \<open>
  C6. When the upstream response has a Content-Type containing \<open>text/event-stream\<close>,
  the run of the handler is the streaming branch, which mentions neither the response
  hooks nor the codec: the client receives the status, the upstream headers and exactly
  the bytes the upstream body delivers, whatever the response hook, the loaded script
  and the Content-Encoding are. If the copy ends without error, the recorded trace has
  the response body \<open>[STREAMING RESPONSE - n bytes]\<close> with \<open>n\<close> the number of bytes
  copied; if it ends with an error, no trace is recorded.
\<close>

theorem streaming_passthrough:
  assumes "HasPrefix (rPath r) ''/v1/''"
    and "rBody r = Inr rawBody"
    and "requestHook rawBody (rHeader r) = (bodyBytes, hdr, None)"
    and "http_NewRequest E (rMethod r) (targetURL r) = None"
    and "client_Do E \<lparr>qMethod = rMethod r, qURL = targetURL r,
                      qHeader = copyRequestHeaders hdr, qBody = bodyBytes\<rparr> = Inr resp"
    and "Contains (hGet (respHeader resp) ''Content-Type'') ''text/event-stream''"
  shows "handler E lhm requestHook responseHook traces r =
           streamingPath E r hdr bodyBytes
             \<lparr>qMethod = rMethod r, qURL = targetURL r,
              qHeader = copyRequestHeaders hdr, qBody = bodyBytes\<rparr> resp
             \<lparr>wHeader = copyResponseHeaders (respHeader resp) [],
              wCommitted = Some (respStatusCode resp, copyResponseHeaders (respHeader resp) []),
              wBody = []\<rparr> traces \<and>
         wBody (written (handler E lhm requestHook responseHook traces r)) = respBody resp \<and>
         wCommitted (written (handler E lhm requestHook responseHook traces r))
           = Some (respStatusCode resp, copyResponseHeaders (respHeader resp) []) \<and>
         (case respErr resp of
            None \<Rightarrow>
              map_option ResponseBody (broadcast (handler E lhm requestHook responseHook traces r))
                = Some (''[STREAMING RESPONSE - '' @ showNat (length (respBody resp)) @ '' bytes]'')
          | Some err \<Rightarrow> broadcast (handler E lhm requestHook responseHook traces r) = None)"
proof -
  from assms(6) have s: "isStreaming resp"
    by (simp add: isStreaming_def)
  note eq = handler_upstream [where requestHook = requestHook and lhm = lhm
      and responseHook = responseHook and traces = traces, OF assms(1-5)]
  have 1: "handler E lhm requestHook responseHook traces r =
           streamingPath E r hdr bodyBytes
             \<lparr>qMethod = rMethod r, qURL = targetURL r,
              qHeader = copyRequestHeaders hdr, qBody = bodyBytes\<rparr> resp
             \<lparr>wHeader = copyResponseHeaders (respHeader resp) [],
              wCommitted = Some (respStatusCode resp, copyResponseHeaders (respHeader resp) []),
              wBody = []\<rparr> traces"
    using eq s by (simp add: Let_def)
  show ?thesis
    unfolding 1
    by (cases "respErr resp") (simp_all add: streamingPath_def Let_def Write_def mkTrace_def)
qed

text \<open>
  An event stream labelled gzip, with a response hook script loaded: the ten bytes pass
  unchanged, no header is added or removed, and the trace holds the placeholder.
\<close>

theorem streaming_passthrough_witness:
  "HasPrefix (rPath helloRequest) ''/v1/'' \<and>
   Contains (hGet (respHeader sseResponse) ''Content-Type'') ''text/event-stream'' \<and>
   hGet (respHeader sseResponse) ''Content-Encoding'' = ''gzip'' \<and>
   hasResponse xtestManager \<and>
   wBody (written (proxy sseEnv xtestManager [] helloRequest)) = ''data: hi'' @ [CHR 0x0A, CHR 0x0A] \<and>
   wCommitted (written (proxy sseEnv xtestManager [] helloRequest))
     = Some (200, [(''Content-Type'', [''text/event-stream'']), (''Content-Encoding'', [''gzip''])]) \<and>
   map_option ResponseBody (broadcast (proxy sseEnv xtestManager [] helloRequest))
     = Some ''[STREAMING RESPONSE - 10 bytes]''"
proof -
  let ?body = "jsonText ''{`messages`:[{`content`:`Hello!`,`role`:`user`}]}''"
  have a1: "HasPrefix (rPath helloRequest) ''/v1/''" by code_simp
  have a2: "rBody helloRequest = Inr helloBody" by code_simp
  have a3: "promptHook sseEnv xtestManager helloBody (rHeader helloRequest)
              = (?body, rHeader helloRequest, None)" by code_simp
  have a4: "http_NewRequest sseEnv (rMethod helloRequest) (targetURL helloRequest) = None"
    by code_simp
  have a5: "client_Do sseEnv \<lparr>qMethod = rMethod helloRequest, qURL = targetURL helloRequest,
              qHeader = copyRequestHeaders (rHeader helloRequest), qBody = ?body\<rparr> = Inr sseResponse"
    by code_simp
  have a6: "Contains (hGet (respHeader sseResponse) ''Content-Type'') ''text/event-stream''"
    by code_simp
  have e: "hGet (respHeader sseResponse) ''Content-Encoding'' = ''gzip''" by code_simp
  have m: "hasResponse xtestManager" by code_simp
  have v1: "respBody sseResponse = ''data: hi'' @ [CHR 0x0A, CHR 0x0A]" by code_simp
  have v2: "respStatusCode sseResponse = 200" by code_simp
  have v3: "copyResponseHeaders (respHeader sseResponse) []
       = [(''Content-Type'', [''text/event-stream'']), (''Content-Encoding'', [''gzip''])]"
    by code_simp
  have v4: "respErr sseResponse = None" by code_simp
  have v5: "''[STREAMING RESPONSE - '' @ showNat (length (respBody sseResponse)) @ '' bytes]''
       = ''[STREAMING RESPONSE - 10 bytes]''"
    by code_simp
  note th0 = streaming_passthrough [where requestHook = "promptHook sseEnv xtestManager"
      and lhm = xtestManager and responseHook = defaultHook and traces = "[]",
      OF a1 a2 a3 a4 a5 a6, folded proxy_def, unfolded v4 option.case v5]
  note th = th0 [unfolded v1 v2 v3]
  note 1 = th [THEN conjunct2, THEN conjunct1]
  note 2 = th [THEN conjunct2, THEN conjunct2, THEN conjunct1]
  note 3 = th [THEN conjunct2, THEN conjunct2, THEN conjunct2]
  show ?thesis
    by (intro conjI a1 a6 e m 1 2 3)
qed

section \<open>Hook errors\<close>





section \<open>The end-to-end scenarios\<close>

text \<open>
  On the buffered branch nothing that happens after \<^verbatim>\<open>WriteHeader\<close> changes the status
  and headers on the wire: they are those of the upstream response, whatever the codec
  does and whatever the response hooks return.
\<close>

lemma Write_committed:
  "wCommitted w = Some c \<Longrightarrow> wCommitted (Write w b) = Some c"
  by (simp add: Write_def)

lemma http_Error_committed:
  "wCommitted w = Some c \<Longrightarrow> wCommitted (http_Error w msg code) = Some c"
  by (simp add: http_Error_def Let_def Write_def WriteHeader_def)

lemma decompressStep_committed:
  "wCommitted (snd (decompressStep E resp w)) = wCommitted w"
  by (simp add: decompressStep_def Let_def split: prod.splits option.splits)

lemma bufferedPath_committed:
  assumes "wCommitted w = Some c"
  shows "wCommitted (written (bufferedPath E lhm responseHook r hdr bodyBytes req resp w traces)) = Some c"
proof (cases "respErr resp")
  case (Some err)
  with assms show ?thesis by (simp add: bufferedPath_def http_Error_committed)
next
  case None
  obtain respBody1 w1 where d: "decompressStep E resp w = (respBody1, w1)"
    by (cases "decompressStep E resp w")
  with decompressStep_committed [of E resp w] assms have w1: "wCommitted w1 = Some c" by simp
  obtain b2 h2 e2 where r1: "responseHook respBody1 (respHeader resp) = (b2, h2, e2)"
    by (cases "responseHook respBody1 (respHeader resp)")
  obtain b3 h3 e3 where r2: "ExecuteResponseHook E lhm b2 h2 = (b3, h3, e3)"
    by (cases "ExecuteResponseHook E lhm b2 h2")
  from None d r1 r2 w1 show ?thesis
    by (cases e2; cases e3) (simp_all add: bufferedPath_def Let_def Write_def)
qed

lemma buffered_headers_fixed_before_hooks:
  assumes "HasPrefix (rPath r) ''/v1/''"
    and "rBody r = Inr rawBody"
    and "requestHook rawBody (rHeader r) = (bodyBytes, hdr, None)"
    and "http_NewRequest E (rMethod r) (targetURL r) = None"
    and "client_Do E \<lparr>qMethod = rMethod r, qURL = targetURL r,
                      qHeader = copyRequestHeaders hdr, qBody = bodyBytes\<rparr> = Inr resp"
    and "\<not> isStreaming resp"
  shows "wCommitted (written (handler E lhm requestHook responseHook traces r))
           = Some (respStatusCode resp, copyResponseHeaders (respHeader resp) [])"
  using assms
  by (simp add: handler_def Let_def newResponseWriter_def WriteHeader_def bufferedPath_committed)

text \<open>
  C4 (the code at the failing input). With the script that sets \<open>x-test\<close> loaded, the
  response hook returns the header \<open>x-test: 1\<close> and the handler adds it to the header
  map of the writer, but the status and the headers were committed by \<^verbatim>\<open>WriteHeader\<close>
  before the hook ran: the response on the wire carries Content-Type only.
\<close>

theorem response_hook_headers_after_commit:
  "ExecuteResponseHook xtestEnv xtestManager (respBody jsonResponse) (respHeader jsonResponse)
     = (respBody jsonResponse, [(''content-type'', [''application/json'']), (''x-test'', [''1''])], None) \<and>
   wCommitted (written (proxy xtestEnv xtestManager [] helloRequest))
     = Some (200, [(''Content-Type'', [''application/json''])]) \<and>
   wHeader (written (proxy xtestEnv xtestManager [] helloRequest))
     = [(''Content-Type'', [''application/json'']), (''X-Test'', [''1''])] \<and>
   wBody (written (proxy xtestEnv xtestManager [] helloRequest)) = respBody jsonResponse"
  by code_simp

text \<open>On the wire there is no \<open>X-Test\<close> header; it is in the header map of the writer only.\<close>

theorem response_hook_headers_after_commit_witness:
  "map_option (\<lambda>c. map_of (snd c) ''X-Test'')
      (wCommitted (written (proxy xtestEnv xtestManager [] helloRequest))) = Some None \<and>
   map_of (wHeader (written (proxy xtestEnv xtestManager [] helloRequest))) ''X-Test'' = Some [''1'']"
  using response_hook_headers_after_commit by simp

text \<open>
  C5 (as amended). For the POST of the first scenario with no script loaded, the body
  forwarded upstream is the body re-marshalled by \<^verbatim>\<open>promptHook\<close>, in which the keys of
  every object are sorted (\<open>content\<close> before \<open>role\<close>), and the request body of the
  trace is that forwarded body.
\<close>

theorem hello_body_remarshalled:
  "map_option qBody (forwarded (proxy goEnv luaHookManager0 [] helloRequest))
     = Some (jsonText ''{`messages`:[{`content`:`Hello!`,`role`:`user`}]}'') \<and>
   map_option RequestBody (broadcast (proxy goEnv luaHookManager0 [] helloRequest))
     = Some (jsonText ''{`messages`:[{`content`:`Hello!`,`role`:`user`}]}'') \<and>
   map_option RequestBody (broadcast (proxy goEnv luaHookManager0 [] helloRequest))
     = map_option qBody (forwarded (proxy goEnv luaHookManager0 [] helloRequest))"
  by code_simp

text \<open>
  The claim as stated fails: neither the forwarded body nor the request body of the
  trace is the literal input.
\<close>

theorem hello_body_counterexample:
  "rBody helloRequest = Inr (jsonText ''{`messages`:[{`role`:`user`,`content`:`Hello!`}]}'') \<and>
   map_option qBody (forwarded (proxy goEnv luaHookManager0 [] helloRequest))
     \<noteq> Some (jsonText ''{`messages`:[{`role`:`user`,`content`:`Hello!`}]}'') \<and>
   map_option RequestBody (broadcast (proxy goEnv luaHookManager0 [] helloRequest))
     \<noteq> Some (jsonText ''{`messages`:[{`role`:`user`,`content`:`Hello!`}]}'')"
  by code_simp

end
